theory Spec2Isabelle
  imports Main
begin

section \<open>tfrun: a guard-rail wrapper around terraform\<close>

text \<open>
  A shallow embedding of \<^verbatim>\<open>tfrun.py\<close>. Python strings are character lists; a
  \<^typ>\<open>char\<close> stands for a code point below 256. Exceptions are values of the type
  \<open>exn\<close>; a function that can raise returns \<open>exn + 'a\<close> together with the state it
  reached, since what was done before a raise stays done. The file system and the
  external terraform binary are explicit: the world is a record, the binary is a
  function parameter \<open>tool\<close> about which nothing is assumed.
\<close>

subsection \<open>Python string primitives\<close>

text \<open>\<^verbatim>\<open>str.isspace\<close> for one character, on the code points below 256.\<close>

definition isspace :: "char \<Rightarrow> bool" where
  "isspace c =
     (let n = (of_char c :: nat)
      in (9 \<le> n \<and> n \<le> 13) \<or> (28 \<le> n \<and> n \<le> 32) \<or> n = 133 \<or> n = 160)"

text \<open>\<^verbatim>\<open>s.lstrip()\<close> and \<^verbatim>\<open>s.strip()\<close> with no argument.\<close>

definition lstrip :: "string \<Rightarrow> string" where
  "lstrip s = dropWhile isspace s"

definition strip :: "string \<Rightarrow> string" where
  "strip s = rev (dropWhile isspace (rev (dropWhile isspace s)))"

text \<open>\<^verbatim>\<open>s.split(sep)\<close> for a one-character separator: never an empty list.\<close>

fun split :: "char \<Rightarrow> string \<Rightarrow> string list" where
  "split sep [] = [Nil]"
| "split sep (c # cs) =
     (if c = sep then [] # split sep cs
      else (case split sep cs of
              [] \<Rightarrow> [c] # []
            | field # fields \<Rightarrow> (c # field) # fields))"

text \<open>
  \<^verbatim>\<open>s.upper()\<close>; the program applies it to the six ASCII keywords only, so the
  ASCII letters are all that is modelled.
\<close>

definition upper :: "string \<Rightarrow> string" where
  "upper s =
     map (\<lambda>c. let n = (of_char c :: nat)
              in if 97 \<le> n \<and> n \<le> 122 then char_of (n - 32) else c) s"

text \<open>
  \<^verbatim>\<open>f.readline()\<close> on a file just opened in text mode: the first line with its
  terminator. Universal newlines end a line at the first \<^verbatim>\<open>\n\<close> or \<^verbatim>\<open>\r\<close> and hand
  the terminator over as \<^verbatim>\<open>\n\<close>.
\<close>

definition readline :: "string \<Rightarrow> string" where
  "readline content =
     (let eol = (\<lambda>c. c = CHR 0x0A \<or> c = CHR 0x0D)
      in takeWhile (\<lambda>c. \<not> eol c) content @
         (if dropWhile (\<lambda>c. \<not> eol c) content = [] then [] else [CHR 0x0A]))"

text \<open>\<^verbatim>\<open>os.path.basename\<close>: what follows the last slash.\<close>

definition basename :: "string \<Rightarrow> string" where
  "basename p = rev (takeWhile (\<lambda>c. c \<noteq> CHR ''/'') (rev p))"

subsection \<open>Exceptions, files, the world\<close>

text \<open>
  The three handlers of \<^verbatim>\<open>Main\<close> tell these classes apart. The payload is
  \<^verbatim>\<open>str(e)\<close>. \<open>OtherException\<close> is any exception that is neither a
  \<^verbatim>\<open>ValueError\<close> nor a \<^verbatim>\<open>FileNotFoundError\<close> (a \<^verbatim>\<open>PermissionError\<close>, an
  \<^verbatim>\<open>IsADirectoryError\<close>, an \<^verbatim>\<open>EOFError\<close>).
\<close>

datatype exn = ValueError string | FileNotFoundError string | OtherException string

datatype Environment = INVALID | TESTING | DEVELOPMENT | STAGING | PRODUCTION

text \<open>\<^verbatim>\<open>env.name\<close>\<close>

fun name :: "Environment \<Rightarrow> string" where
  "name INVALID = ''INVALID''"
| "name TESTING = ''TESTING''"
| "name DEVELOPMENT = ''DEVELOPMENT''"
| "name STAGING = ''STAGING''"
| "name PRODUCTION = ''PRODUCTION''"

text \<open>
  What a relative path of the working directory names: nothing, a directory, a regular
  file that cannot be read, or a regular file with its text.
\<close>

datatype node = NoSuchFile | Directory | Unreadable | Contents string

record 'x world =
  getcwd :: string
  files :: "string \<Rightarrow> node"
  ext :: 'x

text \<open>What the program does that can be observed, in order.\<close>

datatype event =
    Call "string list"
  | Unlink string
  | Input string
  | Print string

type_synonym 'x state = "event list \<times> 'x world"

text \<open>
  The terraform binary: given the argument vector and the world it either cannot be
  started (\<^verbatim>\<open>subprocess.call\<close> raises) or runs, returns an exit status and leaves a
  new world.
\<close>

type_synonym 'x tool = "string list \<Rightarrow> 'x world \<Rightarrow> exn + (int \<times> 'x world)"

text \<open>Sequencing of statements: a raise skips the rest.\<close>

definition seq :: "('s \<Rightarrow> (exn + 'a) \<times> 's) \<Rightarrow> ('a \<Rightarrow> 's \<Rightarrow> (exn + 'b) \<times> 's) \<Rightarrow> 's \<Rightarrow> (exn + 'b) \<times> 's" where
  "seq m f s = (case m s of (Inl e, s') \<Rightarrow> (Inl e, s') | (Inr a, s') \<Rightarrow> f a s')"

definition quote :: "string \<Rightarrow> string" where
  "quote p = [CHR 0x27] @ p @ [CHR 0x27]"

definition open_read :: "string \<Rightarrow> 'x world \<Rightarrow> exn + string" where
  "open_read p w =
     (case files w p of
        NoSuchFile \<Rightarrow> Inl (FileNotFoundError (''[Errno 2] No such file or directory: '' @ quote p))
      | Directory \<Rightarrow> Inl (OtherException (''[Errno 21] Is a directory: '' @ quote p))
      | Unreadable \<Rightarrow> Inl (OtherException (''[Errno 13] Permission denied: '' @ quote p))
      | Contents s \<Rightarrow> Inr s)"

text \<open>\<^verbatim>\<open>Path(p).is_file()\<close>\<close>

definition is_file :: "string \<Rightarrow> 'x world \<Rightarrow> bool" where
  "is_file p w = (case files w p of NoSuchFile \<Rightarrow> False | Directory \<Rightarrow> False | _ \<Rightarrow> True)"

text \<open>\<^verbatim>\<open>Path(p).unlink()\<close>, in a directory the operator may write to.\<close>

definition unlink :: "string \<Rightarrow> 'x state \<Rightarrow> (exn + unit) \<times> 'x state" where
  "unlink p s =
     (case s of (tr, w) \<Rightarrow>
        (case files w p of
           NoSuchFile \<Rightarrow>
             (Inl (FileNotFoundError (''[Errno 2] No such file or directory: '' @ quote p)),
              (tr @ [Unlink p], w))
         | Directory \<Rightarrow>
             (Inl (OtherException (''[Errno 21] Is a directory: '' @ quote p)),
              (tr @ [Unlink p], w))
         | _ \<Rightarrow> (Inr (), (tr @ [Unlink p], w\<lparr>files := (files w)(p := NoSuchFile)\<rparr>))))"

text \<open>\<^verbatim>\<open>subprocess.call(argv)\<close>\<close>

definition call :: "'x tool \<Rightarrow> string list \<Rightarrow> 'x state \<Rightarrow> (exn + int) \<times> 'x state" where
  "call tool argv s =
     (case s of (tr, w) \<Rightarrow>
        (case tool argv w of
           Inl e \<Rightarrow> (Inl e, (tr @ [Call argv], w))
         | Inr (rc, w') \<Rightarrow> (Inr rc, (tr @ [Call argv], w'))))"

text \<open>\<^verbatim>\<open>print(s)\<close>\<close>

definition print :: "string \<Rightarrow> 'x state \<Rightarrow> (exn + unit) \<times> 'x state" where
  "print msg s = (case s of (tr, w) \<Rightarrow> (Inr (), (tr @ [Print msg], w)))"

text \<open>
  \<^verbatim>\<open>input(prompt)\<close>: the operator's line without its newline, or \<^verbatim>\<open>EOFError\<close> when
  standard input is at its end.
\<close>

definition input :: "string option \<Rightarrow> string \<Rightarrow> 'x state \<Rightarrow> (exn + string) \<times> 'x state" where
  "input stdin prompt s =
     (case s of (tr, w) \<Rightarrow>
        (case stdin of
           None \<Rightarrow> (Inl (OtherException ''EOF when reading a line''), (tr @ [Input prompt], w))
         | Some answer \<Rightarrow> (Inr answer, (tr @ [Input prompt], w))))"

subsection \<open>The program\<close>

definition AFILE :: string where
  "AFILE = ''variables.tf''"

definition TERRAFORMPATH :: string where
  "TERRAFORMPATH = ''/home/brianprovenzano/terraform/''"

definition unknown_environment :: string where
  "unknown_environment =
     ''The environment cannot be determined from tfvars file!! '' @
     ''Likely invalid format for magic string '' @
     ''on first line of local env tfvars.tf file OR in an invalid/unknown current '' @
     ''working directory (environment) for the terraform project''"

definition invalid_format :: string where
  "invalid_format =
     ''The environment cannot be determined from tfvars file!! '' @
     ''Likely invalid format for magic string on first line of '' @
     ''local env tfvars.tf file.''"

definition CheckEnvironment :: "string \<Rightarrow> 'x world \<Rightarrow> exn + Environment" where
  "CheckEnvironment afile w =
     (let currentWorkingDirectory = basename (getcwd w)
      in case open_read afile w of
           Inl e \<Rightarrow> Inl e
         | Inr f \<Rightarrow>
             (let alist = split CHR ''|'' (strip (readline f))
              in if length alist = 2 then
                   (let line = alist ! 1
                    in if line = ''testing'' \<and> currentWorkingDirectory = ''testing''
                       then Inr TESTING
                       else if line = ''development'' \<and> currentWorkingDirectory = ''development''
                       then Inr DEVELOPMENT
                       else if line = ''staging'' \<and> currentWorkingDirectory = ''staging''
                       then Inr STAGING
                       else if line = ''production'' \<and> currentWorkingDirectory = ''production''
                       then Inr PRODUCTION
                       else Inl (ValueError unknown_environment))
                 else Inl (ValueError invalid_format)))"

definition PromptQuestion :: "string \<Rightarrow> Environment \<Rightarrow> string" where
  "PromptQuestion TFAction env =
     [CHR 0x0A] @ '' '' @ name env @ '' selected!!: Are you sure you wish to run '' @
     quote (''terraform '' @ TFAction) @ '' on the '' @ name env @ '' environment?: ''"

text \<open>\<^verbatim>\<open>DisplayAction\<close> builds a message and returns it; it prints nothing.\<close>

definition DisplayAction :: "string \<Rightarrow> Environment \<Rightarrow> string" where
  "DisplayAction TFAction env =
     [CHR 0x0A] @ '' '' @ name env @ '' selected!!: Running  '' @
     quote (''terraform '' @ TFAction) @ '' on the '' @ name env @ '' environment! ''"

definition RunTerraformPlan :: "'x tool \<Rightarrow> 'x state \<Rightarrow> (exn + unit) \<times> 'x state" where
  "RunTerraformPlan tool =
     seq (call tool [TERRAFORMPATH @ ''terraform'', ''get'']) (\<lambda>_.
     let previousPlan = ''.tfplan'' in
     seq (\<lambda>s. if is_file previousPlan (snd s) then unlink previousPlan s else (Inr (), s)) (\<lambda>_.
     seq (call tool [TERRAFORMPATH @ ''terraform'', ''plan'', ''-out=.tfplan'']) (\<lambda>_.
     Pair (Inr ()))))"

definition RunTerraformGetUpdate :: "'x tool \<Rightarrow> 'x state \<Rightarrow> (exn + unit) \<times> 'x state" where
  "RunTerraformGetUpdate tool =
     seq (call tool [TERRAFORMPATH @ ''terraform'', ''get'', ''-update'']) (\<lambda>_.
     Pair (Inr ()))"

definition RunTerraformValidate :: "'x tool \<Rightarrow> 'x state \<Rightarrow> (exn + unit) \<times> 'x state" where
  "RunTerraformValidate tool =
     seq (call tool [TERRAFORMPATH @ ''terraform'', ''validate'']) (\<lambda>_.
     Pair (Inr ()))"

definition RemoveTFPlanFile :: "'x state \<Rightarrow> (exn + unit) \<times> 'x state" where
  "RemoveTFPlanFile =
     (let previousPlan = ''.tfplan'' in
      (\<lambda>s. if is_file previousPlan (snd s)
           then seq (unlink previousPlan) (\<lambda>_.
                     print ([CHR 0x0A] @ '' Removed previous local terraform plan file!!'')) s
           else (Inr (), s)))"

definition no_tfplan :: string where
  "no_tfplan =
     ''Cannot find a .tfplan file!! Did you run 'plan' before '' @
     ''this 'apply'?''"

definition RunTerraformApply :: "'x tool \<Rightarrow> 'x state \<Rightarrow> (exn + unit) \<times> 'x state" where
  "RunTerraformApply tool =
     (let previousPlan = ''.tfplan'' in
      (\<lambda>s. if is_file previousPlan (snd s)
           then seq (call tool [TERRAFORMPATH @ ''terraform'', ''apply .tfplan'']) (\<lambda>_.
                     unlink previousPlan) s
           else (Inl (ValueError no_tfplan), s)))"

definition RunTerraformDestroy :: "'x tool \<Rightarrow> 'x state \<Rightarrow> (exn + unit) \<times> 'x state" where
  "RunTerraformDestroy tool =
     seq (call tool [TERRAFORMPATH @ ''terraform'', ''destroy'']) (\<lambda>_.
     Pair (Inr ()))"

definition usage :: string where
  "usage =
     ''You must enter either 'apply', 'plan' '' @
     [CHR 0x27] @ ''destroy', 'removeplanfile', 'validate' or 'get-update'. '' @
     ''Other options are not supported at this time''"

definition file_not_found :: "string \<Rightarrow> string" where
  "file_not_found fe =
     ''The file not found - REASON ['' @ fe @ ''] '' @ [CHR 0x0A] @
     ''Check your current environment directory for the correctly '' @
     ''formatted local env tfvars.tf file and ensure terraform '' @
     ''is located in the directory specified in this script.'' @
     ''It is also possible that you may not have the correct '' @
     ''format for the magic string on the first line of the vars file. '' @
     ''See this script's source code for details on '' @
     ''creating one if needed.''"

text \<open>
  \<^verbatim>\<open>Main\<close> after \<^verbatim>\<open>parse_args\<close>: \<open>args_action\<close> and \<open>args_yes\<close> are the parsed
  arguments, \<open>stdin\<close> is what the operator types at the prompt, if anything. The result
  is the trace of what was done and the world left behind.
\<close>

definition Main :: "'x tool \<Rightarrow> string \<Rightarrow> bool \<Rightarrow> string option \<Rightarrow> 'x world \<Rightarrow> 'x state" where
  "Main tool args_action args_yes stdin w =
     (let terraformAction = lstrip args_action;
          try_block = (\<lambda>s.
            case CheckEnvironment AFILE (snd s) of
              Inl e \<Rightarrow> (Inl e, s)
            | Inr currentEnvironment \<Rightarrow>
                if terraformAction = ''plan'' then
                  (let action = upper terraformAction in
                   if args_yes then
                     (let _ = DisplayAction action currentEnvironment in
                      RunTerraformPlan tool s)
                   else
                     seq (input stdin (PromptQuestion action currentEnvironment)) (\<lambda>answer.
                     let answer = (if lstrip answer = ''yes'' then True else False) in
                     if answer then
                       (let _ = DisplayAction action currentEnvironment in
                        RunTerraformPlan tool)
                     else Pair (Inr ())) s)
                else if terraformAction = ''apply'' then
                  (let action = upper terraformAction in
                   if args_yes then
                     (let _ = DisplayAction action currentEnvironment in
                      RunTerraformApply tool s)
                   else
                     seq (input stdin (PromptQuestion action currentEnvironment)) (\<lambda>answer.
                     let answer = (if lstrip answer = ''yes'' then True else False) in
                     if answer then
                       (let _ = DisplayAction action currentEnvironment in
                        RunTerraformApply tool)
                     else Pair (Inr ())) s)
                else if terraformAction = ''destroy'' then
                  (let action = upper terraformAction in
                   if args_yes then
                     (let _ = DisplayAction action currentEnvironment in
                      RunTerraformDestroy tool s)
                   else
                     seq (input stdin (PromptQuestion action currentEnvironment)) (\<lambda>answer.
                     let answer = (if lstrip answer = ''yes'' then True else False) in
                     if answer then
                       (let _ = DisplayAction action currentEnvironment in
                        RunTerraformDestroy tool)
                     else Pair (Inr ())) s)
                else if terraformAction = ''get-update'' then
                  (let action = upper terraformAction in
                   if args_yes then
                     (let _ = DisplayAction action currentEnvironment in
                      RunTerraformGetUpdate tool s)
                   else
                     seq (input stdin (PromptQuestion action currentEnvironment)) (\<lambda>answer.
                     let answer = (if lstrip answer = ''yes'' then True else False) in
                     if answer then
                       (let _ = DisplayAction action currentEnvironment in
                        RunTerraformGetUpdate tool)
                     else Pair (Inr ())) s)
                else if terraformAction = ''validate'' then
                  (let action = upper terraformAction;
                       _ = DisplayAction action currentEnvironment in
                   RunTerraformValidate tool s)
                else if terraformAction = ''removeplanfile'' then
                  (let action = upper terraformAction;
                       _ = DisplayAction action currentEnvironment in
                   RemoveTFPlanFile s)
                else print usage s)
      in case try_block ([], w) of
           (Inr _, s) \<Rightarrow> s
         | (Inl (ValueError ve), s) \<Rightarrow> snd (print ve s)
         | (Inl (FileNotFoundError fe), s) \<Rightarrow> snd (print (file_not_found fe) s)
         | (Inl (OtherException e), s) \<Rightarrow> snd (print (''Unknown error - REASON: '' @ e) s))"

subsection \<open>A stand-in for the binary and a working directory, for concrete runs\<close>

text \<open>
  A terraform that can always be started: \<^verbatim>\<open>plan -out=.tfplan\<close> writes the plan file
  and exits with 0; the single argument \<^verbatim>\<open>apply .tfplan\<close> is no subcommand, so it
  exits with 1 and touches nothing; everything else exits with 0.
\<close>

definition terraform_stub :: "unit tool" where
  "terraform_stub argv w =
     (if argv = [TERRAFORMPATH @ ''terraform'', ''plan'', ''-out=.tfplan'']
      then Inr (0, w\<lparr>files := (files w)(''.tfplan'' := Contents ''plan'')\<rparr>)
      else if argv = [TERRAFORMPATH @ ''terraform'', ''apply .tfplan'']
      then Inr (1, w)
      else Inr (0, w))"

text \<open>A directory \<^verbatim>\<open>production\<close> whose marker file declares \<^verbatim>\<open>production\<close>; no plan file.\<close>

definition production_dir :: "unit world" where
  "production_dir =
     \<lparr>getcwd = ''/srv/infra/production'',
      files = (\<lambda>p. if p = ''variables.tf''
                    then Contents (''#environment|production'' @ [CHR 0x0A] @ ''# variables'')
                    else NoSuchFile),
      ext = ()\<rparr>"

text \<open>
  The same marker file in a directory called \<^verbatim>\<open>staging\<close>: declared and actual
  environment disagree.
\<close>

definition mismatched_dir :: "unit world" where
  "mismatched_dir = production_dir\<lparr>getcwd := ''/srv/infra/staging''\<rparr>"

text \<open>A directory \<^verbatim>\<open>testing\<close> whose marker line has three fields.\<close>

definition three_field_dir :: "unit world" where
  "three_field_dir =
     production_dir\<lparr>getcwd := ''/srv/infra/testing'',
                     files := (files production_dir)(''variables.tf'' := Contents ''x|testing|y'')\<rparr>"

text \<open>A directory \<^verbatim>\<open>testing\<close> whose marker line ends in a space.\<close>

definition trailing_space_dir :: "unit world" where
  "trailing_space_dir =
     production_dir\<lparr>getcwd := ''/srv/infra/testing'',
                     files := (files production_dir)
                                (''variables.tf'' := Contents ''#environment|testing '')\<rparr>"

text \<open>The directory \<^verbatim>\<open>production\<close> with a marker file that may not be read, and with none.\<close>

definition unreadable_marker_dir :: "unit world" where
  "unreadable_marker_dir =
     production_dir\<lparr>files := (files production_dir)(''variables.tf'' := Unreadable)\<rparr>"

definition no_marker_dir :: "unit world" where
  "no_marker_dir =
     production_dir\<lparr>files := (files production_dir)(''variables.tf'' := NoSuchFile)\<rparr>"

text \<open>The directory \<^verbatim>\<open>production\<close> with a plan file left by an earlier run.\<close>

definition planned_dir :: "unit world" where
  "planned_dir = production_dir\<lparr>files := (files production_dir)(''.tfplan'' := Contents ''plan'')\<rparr>"

section \<open>Properties\<close>

subsection \<open>Strings\<close>

lemma split_length: "length (split sep s) = Suc (length (filter (\<lambda>c. c = sep) s))"
  by (induction s) (auto split: list.splits)

lemma filter_dropWhile_other:
  "\<not> P sep \<Longrightarrow> filter (\<lambda>c. c = sep) (dropWhile P s) = filter (\<lambda>c. c = sep) s"
  by (induction s) auto

lemma filter_strip:
  "\<not> isspace sep \<Longrightarrow> filter (\<lambda>c. c = sep) (strip s) = filter (\<lambda>c. c = sep) s"
  unfolding strip_def
  by (metis filter_dropWhile_other rev_filter rev_rev_ident)

lemma bar_not_space: "\<not> isspace CHR ''|''"
  by (simp add: isspace_def)

lemma split_strip_length: "length (split CHR ''|'' (strip s)) = length (split CHR ''|'' s)"
  by (simp add: split_length filter_strip bar_not_space)

lemma keywords_upper:
  "upper ''plan'' = ''PLAN''" "upper ''apply'' = ''APPLY''" "upper ''destroy'' = ''DESTROY''"
  "upper ''get-update'' = ''GET-UPDATE''" "upper ''validate'' = ''VALIDATE''"
  "upper ''removeplanfile'' = ''REMOVEPLANFILE''"
  by code_simp+

subsection \<open>Environment resolution\<close>

lemma CheckEnvironment_not_INVALID: "CheckEnvironment afile w \<noteq> Inr INVALID"
  by (simp add: CheckEnvironment_def Let_def split: sum.splits)

lemma CheckEnvironment_Contents:
  "files w afile = Contents c \<Longrightarrow>
   CheckEnvironment afile w =
     (case split CHR ''|'' (strip (readline c)) of
        [tag, line] \<Rightarrow>
          if line = ''testing'' \<and> basename (getcwd w) = ''testing'' then Inr TESTING
          else if line = ''development'' \<and> basename (getcwd w) = ''development'' then Inr DEVELOPMENT
          else if line = ''staging'' \<and> basename (getcwd w) = ''staging'' then Inr STAGING
          else if line = ''production'' \<and> basename (getcwd w) = ''production'' then Inr PRODUCTION
          else Inl (ValueError unknown_environment)
      | _ \<Rightarrow> Inl (ValueError invalid_format))"
  by (auto simp: CheckEnvironment_def open_read_def Let_def split: list.splits)

lemma CheckEnvironment_no_Contents:
  "(\<forall>c. files w afile \<noteq> Contents c) \<Longrightarrow>
   \<exists>e. CheckEnvironment afile w = Inl e \<and> (\<forall>m. e \<noteq> ValueError m)"
  by (cases "files w afile") (auto simp: CheckEnvironment_def open_read_def Let_def)

lemma CheckEnvironment_Inr:
  assumes "CheckEnvironment afile w = Inr E"
  shows "\<exists>n c tag.
          (n = ''testing'' \<or> n = ''development'' \<or> n = ''staging'' \<or> n = ''production'') \<and>
          files w afile = Contents c \<and>
          split CHR ''|'' (strip (readline c)) = [tag, n] \<and>
          basename (getcwd w) = n"
proof (cases "files w afile")
  case (Contents c)
  from assms show ?thesis
    unfolding CheckEnvironment_Contents [OF Contents] Contents
    by (simp split: list.splits if_splits)
next
  case NoSuchFile
  with assms CheckEnvironment_no_Contents [of w afile] show ?thesis by auto
next
  case Directory
  with assms CheckEnvironment_no_Contents [of w afile] show ?thesis by auto
next
  case Unreadable
  with assms CheckEnvironment_no_Contents [of w afile] show ?thesis by auto
qed

lemma production_dir_resolved: "CheckEnvironment AFILE production_dir = Inr PRODUCTION"
  by code_simp

lemma mismatched_dir_unresolved:
  "CheckEnvironment AFILE mismatched_dir = Inl (ValueError unknown_environment)"
  by code_simp

subsection \<open>The commands\<close>

lemma RunTerraformDestroy_eq:
  "RunTerraformDestroy tool (tr, w) =
     (case tool [TERRAFORMPATH @ ''terraform'', ''destroy''] w of
        Inl e \<Rightarrow> (Inl e, (tr @ [Call [TERRAFORMPATH @ ''terraform'', ''destroy'']], w))
      | Inr (rc, w') \<Rightarrow> (Inr (), (tr @ [Call [TERRAFORMPATH @ ''terraform'', ''destroy'']], w')))"
  by (simp add: RunTerraformDestroy_def seq_def call_def split: sum.splits prod.splits)

subsection \<open>The whole invocation\<close>

lemma Main_unresolved:
  "CheckEnvironment AFILE w = Inl e \<Longrightarrow>
   Main tool a y i w =
     ([Print (case e of ValueError ve \<Rightarrow> ve | FileNotFoundError fe \<Rightarrow> file_not_found fe
                      | OtherException m \<Rightarrow> ''Unknown error - REASON: '' @ m)], w)"
  by (simp add: Main_def print_def split: exn.splits)

lemma destroy_in_production:
  "Main terraform_stub ''destroy'' True None production_dir =
     ([Call [TERRAFORMPATH @ ''terraform'', ''destroy'']], production_dir)"
  by (simp add: Main_def production_dir_resolved lstrip_def isspace_def RunTerraformDestroy_eq
        terraform_stub_def)

text \<open>
  C1. Whatever the binary, the arguments and the operator's answer: if the trace of an
  invocation holds a call of the binary, then the marker file could be read, its
  stripped first line has exactly two fields, the second of them equals the base name
  of the working directory and is one of the four environment names, and
  \<open>CheckEnvironment\<close> returned a variant other than \<open>INVALID\<close>. If \<open>CheckEnvironment\<close>
  raises, the invocation prints one message and does nothing else: no call, no unlink,
  no prompt, and the world is as it was.
\<close>

theorem dispatch_requires_resolved_environment:
  "(Call argv \<in> set (fst (Main tool a y i w)) \<longrightarrow>
      (\<exists>n c tag E.
          (n = ''testing'' \<or> n = ''development'' \<or> n = ''staging'' \<or> n = ''production'') \<and>
          files w AFILE = Contents c \<and>
          split CHR ''|'' (strip (readline c)) = [tag, n] \<and>
          basename (getcwd w) = n \<and>
          CheckEnvironment AFILE w = Inr E \<and> E \<noteq> INVALID)) \<and>
   ((\<exists>e. CheckEnvironment AFILE w = Inl e) \<longrightarrow>
      (\<exists>msg. Main tool a y i w = ([Print msg], w)))"
proof (cases "CheckEnvironment AFILE w")
  case (Inl e)
  then show ?thesis by (simp add: Main_unresolved)
next
  case (Inr E)
  have "E \<noteq> INVALID"
    using Inr CheckEnvironment_not_INVALID [of AFILE w] by auto
  with CheckEnvironment_Inr [OF Inr] Inr show ?thesis by simp
qed

theorem dispatch_requires_resolved_environment_witness:
  "Call [TERRAFORMPATH @ ''terraform'', ''destroy'']
     \<in> set (fst (Main terraform_stub ''destroy'' True None production_dir)) \<and>
   (\<exists>c tag. files production_dir AFILE = Contents c \<and>
      split CHR ''|'' (strip (readline c)) = [tag, ''production'']) \<and>
   basename (getcwd production_dir) = ''production'' \<and>
   CheckEnvironment AFILE production_dir = Inr PRODUCTION \<and>
   CheckEnvironment AFILE mismatched_dir = Inl (ValueError unknown_environment) \<and>
   Main terraform_stub ''destroy'' True None mismatched_dir =
     ([Print unknown_environment], mismatched_dir)"
proof -
  let ?argv = "[TERRAFORMPATH @ ''terraform'', ''destroy'']"
  have run: "Call ?argv \<in> set (fst (Main terraform_stub ''destroy'' True None production_dir))"
    by (simp add: destroy_in_production)
  have cwd: "basename (getcwd production_dir) = ''production''"
    by code_simp
  from run dispatch_requires_resolved_environment
         [of ?argv terraform_stub "''destroy''" True None production_dir]
  obtain n c tag where
    "files production_dir AFILE = Contents c"
    "split CHR ''|'' (strip (readline c)) = [tag, n]"
    "basename (getcwd production_dir) = n"
    by blast
  with cwd have marker: "\<exists>c tag. files production_dir AFILE = Contents c \<and>
      split CHR ''|'' (strip (readline c)) = [tag, ''production'']"
    by auto
  from mismatched_dir_unresolved dispatch_requires_resolved_environment
         [of ?argv terraform_stub "''destroy''" True None mismatched_dir]
  obtain msg where msg: "Main terraform_stub ''destroy'' True None mismatched_dir =
     ([Print msg], mismatched_dir)"
    by blast
  have "msg = unknown_environment"
    using msg Main_unresolved [OF mismatched_dir_unresolved, of terraform_stub "''destroy''" True None]
    by simp
  with msg run cwd marker production_dir_resolved mismatched_dir_unresolved
  show ?thesis by simp
qed

lemma three_field_dir_unresolved:
  "CheckEnvironment AFILE three_field_dir = Inl (ValueError invalid_format)"
  by code_simp

lemma trailing_space_dir_resolved:
  "CheckEnvironment AFILE trailing_space_dir = Inr TESTING"
  by code_simp

text \<open>
  C2, as stated, fails in both directions. In a directory \<^verbatim>\<open>testing\<close> whose marker
  line is \<^verbatim>\<open>x|testing|y\<close> the second field of the first line is \<^verbatim>\<open>testing\<close> and so is
  the base name of the working directory, yet \<open>CheckEnvironment\<close> raises: the line has
  three fields and the program asks for exactly two. And where the marker line is
  \<^verbatim>\<open>#environment|testing\<close> followed by a space, the second field of the first line is
  not \<^verbatim>\<open>testing\<close> but \<open>CheckEnvironment\<close> returns \<open>TESTING\<close>: the line is stripped before
  it is split.
\<close>

theorem second_field_alone_counterexample:
  "files three_field_dir AFILE = Contents ''x|testing|y'' \<and>
   split CHR ''|'' (readline ''x|testing|y'') ! 1 = ''testing'' \<and>
   basename (getcwd three_field_dir) = ''testing'' \<and>
   CheckEnvironment AFILE three_field_dir = Inl (ValueError invalid_format) \<and>
   files trailing_space_dir AFILE = Contents ''#environment|testing '' \<and>
   split CHR ''|'' (readline ''#environment|testing '') ! 1 = ''testing '' \<and>
   ''testing '' \<noteq> ''testing'' \<and>
   CheckEnvironment AFILE trailing_space_dir = Inr TESTING"
proof -
  have "files three_field_dir AFILE = Contents ''x|testing|y''"
    by (simp add: three_field_dir_def AFILE_def)
  moreover have "split CHR ''|'' (readline ''x|testing|y'') ! 1 = ''testing''"
    by (simp add: readline_def)
  moreover have "basename (getcwd three_field_dir) = ''testing''"
    by (simp add: three_field_dir_def basename_def)
  moreover have "files trailing_space_dir AFILE = Contents ''#environment|testing ''"
    by (simp add: trailing_space_dir_def AFILE_def)
  moreover have "split CHR ''|'' (readline ''#environment|testing '') ! 1 = ''testing ''"
    by (simp add: readline_def)
  ultimately show ?thesis
    by (simp add: three_field_dir_unresolved trailing_space_dir_resolved)
qed

text \<open>
  C2, amended. For each of the four environments, \<open>CheckEnvironment\<close> returns its variant
  if and only if the marker file can be read, its first line, stripped of surrounding
  whitespace, splits at the bars into exactly two fields of which the second is the
  environment's name, and the base name of the working directory is that name too.
  All comparisons are equalities of strings, so they are case-sensitive.
\<close>

theorem CheckEnvironment_resolves_iff:
  "(CheckEnvironment afile w = Inr TESTING \<longleftrightarrow>
      (\<exists>c tag. files w afile = Contents c \<and>
         split CHR ''|'' (strip (readline c)) = [tag, ''testing'']) \<and>
      basename (getcwd w) = ''testing'') \<and>
   (CheckEnvironment afile w = Inr DEVELOPMENT \<longleftrightarrow>
      (\<exists>c tag. files w afile = Contents c \<and>
         split CHR ''|'' (strip (readline c)) = [tag, ''development'']) \<and>
      basename (getcwd w) = ''development'') \<and>
   (CheckEnvironment afile w = Inr STAGING \<longleftrightarrow>
      (\<exists>c tag. files w afile = Contents c \<and>
         split CHR ''|'' (strip (readline c)) = [tag, ''staging'']) \<and>
      basename (getcwd w) = ''staging'') \<and>
   (CheckEnvironment afile w = Inr PRODUCTION \<longleftrightarrow>
      (\<exists>c tag. files w afile = Contents c \<and>
         split CHR ''|'' (strip (readline c)) = [tag, ''production'']) \<and>
      basename (getcwd w) = ''production'')"
proof (cases "files w afile")
  case (Contents c)
  show ?thesis
    unfolding CheckEnvironment_Contents [OF Contents] Contents
    by (simp split: list.splits)
next
  case NoSuchFile
  with CheckEnvironment_no_Contents [of w afile] show ?thesis by auto
next
  case Directory
  with CheckEnvironment_no_Contents [of w afile] show ?thesis by auto
next
  case Unreadable
  with CheckEnvironment_no_Contents [of w afile] show ?thesis by auto
qed

theorem CheckEnvironment_resolves_iff_witness:
  "CheckEnvironment AFILE production_dir = Inr PRODUCTION \<and>
   \<not> ((\<exists>c tag. files mismatched_dir AFILE = Contents c \<and>
          split CHR ''|'' (strip (readline c)) = [tag, ''staging'']) \<and>
       basename (getcwd mismatched_dir) = ''staging'')"
proof -
  let ?c = "''#environment|production'' @ [CHR 0x0A] @ ''# variables''"
  have marker_file: "files production_dir AFILE = Contents ?c"
    by (simp add: production_dir_def AFILE_def)
  have fields: "split CHR ''|'' (strip (readline ?c)) = [''#environment'', ''production'']"
    by (simp add: readline_def strip_def isspace_def)
  have cwd: "basename (getcwd production_dir) = ''production''"
    by (simp add: production_dir_def basename_def)
  from marker_file fields cwd have resolved: "CheckEnvironment AFILE production_dir = Inr PRODUCTION"
    using CheckEnvironment_resolves_iff [of AFILE production_dir] by blast
  have "CheckEnvironment AFILE mismatched_dir \<noteq> Inr STAGING"
    by (simp add: mismatched_dir_unresolved)
  then have "\<not> ((\<exists>c tag. files mismatched_dir AFILE = Contents c \<and>
          split CHR ''|'' (strip (readline c)) = [tag, ''staging'']) \<and>
       basename (getcwd mismatched_dir) = ''staging'')"
    using CheckEnvironment_resolves_iff [of AFILE mismatched_dir] by blast
  with resolved show ?thesis by simp
qed

text \<open>
  C6. When the first line of a readable marker file splits at the bars into a number of
  fields other than two, \<open>CheckEnvironment\<close> raises the \<^verbatim>\<open>ValueError\<close> for an invalid
  format, whatever the working directory \<open>d\<close> is. (Stripping the line removes no bar, so
  the raw and the stripped line have the same number of fields.) And \<open>CheckEnvironment\<close>
  never returns \<open>INVALID\<close>.
\<close>

theorem malformed_marker_fails:
  "(files w afile = Contents c \<and> length (split CHR ''|'' (readline c)) \<noteq> 2 \<longrightarrow>
      CheckEnvironment afile (w\<lparr>getcwd := d\<rparr>) = Inl (ValueError invalid_format)) \<and>
   CheckEnvironment afile w \<noteq> Inr INVALID"
proof -
  have "CheckEnvironment afile (w\<lparr>getcwd := d\<rparr>) = Inl (ValueError invalid_format)"
    if c: "files w afile = Contents c" and n: "length (split CHR ''|'' (readline c)) \<noteq> 2"
  proof -
    from c have "files (w\<lparr>getcwd := d\<rparr>) afile = Contents c" by simp
    moreover from n have "length (split CHR ''|'' (strip (readline c))) \<noteq> 2"
      by (simp add: split_strip_length)
    ultimately show ?thesis
      by (simp add: CheckEnvironment_def open_read_def)
  qed
  then show ?thesis
    by (simp add: CheckEnvironment_not_INVALID)
qed

theorem malformed_marker_fails_witness:
  "length (split CHR ''|'' (readline ''#environment production'')) = 1 \<and>
   CheckEnvironment AFILE
     (production_dir\<lparr>files := (files production_dir)(AFILE := Contents ''#environment production''),
                     getcwd := ''/srv/infra/production''\<rparr>) =
     Inl (ValueError invalid_format) \<and>
   length (split CHR ''|'' (readline '''')) = 1 \<and>
   CheckEnvironment AFILE
     (production_dir\<lparr>files := (files production_dir)(AFILE := Contents ''''),
                     getcwd := ''/srv/infra/testing''\<rparr>) =
     Inl (ValueError invalid_format)"
proof -
  let ?w1 = "production_dir\<lparr>files := (files production_dir)(AFILE := Contents ''#environment production'')\<rparr>"
  let ?w2 = "production_dir\<lparr>files := (files production_dir)(AFILE := Contents '''')\<rparr>"
  have n1: "length (split CHR ''|'' (readline ''#environment production'')) = 1"
    by (simp add: readline_def)
  have n2: "length (split CHR ''|'' (readline '''')) = 1"
    by (simp add: readline_def)
  have f1: "files ?w1 AFILE = Contents ''#environment production''" by simp
  have f2: "files ?w2 AFILE = Contents ''''" by simp
  from n1 f1 malformed_marker_fails [of ?w1 AFILE "''#environment production''" "''/srv/infra/production''"]
  have r1: "CheckEnvironment AFILE (?w1\<lparr>getcwd := ''/srv/infra/production''\<rparr>) =
     Inl (ValueError invalid_format)" by simp
  from n2 f2 malformed_marker_fails [of ?w2 AFILE "''''" "''/srv/infra/testing''"]
  have r2: "CheckEnvironment AFILE (?w2\<lparr>getcwd := ''/srv/infra/testing''\<rparr>) =
     Inl (ValueError invalid_format)" by simp
  from n1 n2 r1 r2 show ?thesis by simp
qed

text \<open>
  C9, as stated, fails for the marker file that exists and cannot be opened. A missing
  file makes \<^verbatim>\<open>open\<close> raise \<^verbatim>\<open>FileNotFoundError\<close>, which \<^verbatim>\<open>Main\<close> reports with its
  file-not-found text; a file without read permission makes it raise
  \<^verbatim>\<open>PermissionError\<close>, which only the catch-all handler takes: a different kind of
  failure, reported as an unknown error.
\<close>

theorem unopenable_marker_counterexample:
  "files unreadable_marker_dir AFILE = Unreadable \<and>
   CheckEnvironment AFILE unreadable_marker_dir =
     Inl (OtherException (''[Errno 13] Permission denied: '' @ quote AFILE)) \<and>
   files no_marker_dir AFILE = NoSuchFile \<and>
   CheckEnvironment AFILE no_marker_dir =
     Inl (FileNotFoundError (''[Errno 2] No such file or directory: '' @ quote AFILE)) \<and>
   Main terraform_stub ''validate'' False None unreadable_marker_dir =
     ([Print (''Unknown error - REASON: '' @ ''[Errno 13] Permission denied: '' @ quote AFILE)],
      unreadable_marker_dir) \<and>
   Main terraform_stub ''validate'' False None no_marker_dir =
     ([Print (file_not_found (''[Errno 2] No such file or directory: '' @ quote AFILE))],
      no_marker_dir)"
proof -
  have u: "files unreadable_marker_dir AFILE = Unreadable"
    by (simp add: unreadable_marker_dir_def AFILE_def)
  have n: "files no_marker_dir AFILE = NoSuchFile"
    by (simp add: no_marker_dir_def AFILE_def)
  have cu: "CheckEnvironment AFILE unreadable_marker_dir =
     Inl (OtherException (''[Errno 13] Permission denied: '' @ quote AFILE))"
    using u by (simp add: CheckEnvironment_def open_read_def)
  have cn: "CheckEnvironment AFILE no_marker_dir =
     Inl (FileNotFoundError (''[Errno 2] No such file or directory: '' @ quote AFILE))"
    using n by (simp add: CheckEnvironment_def open_read_def)
  from u n cu cn Main_unresolved [OF cu] Main_unresolved [OF cn] show ?thesis
    by simp
qed

text \<open>
  C9, amended. A missing marker file fails with \<^verbatim>\<open>FileNotFoundError\<close> and the
  file-not-found report. A marker that is there and cannot be opened (a directory, a
  file without read permission) fails with another exception and the unknown-error
  report. A marker that can be read fails, if at all, with \<^verbatim>\<open>ValueError\<close>, whose text
  is printed as it is. The three kinds are different constructors, so a missing or
  unopenable marker is never taken for a malformed or mismatching one.
\<close>

theorem marker_failure_kinds:
  "(files w AFILE = NoSuchFile \<longrightarrow>
      (\<exists>m. CheckEnvironment AFILE w = Inl (FileNotFoundError m) \<and>
           Main tool a y i w = ([Print (file_not_found m)], w))) \<and>
   (files w AFILE = Directory \<or> files w AFILE = Unreadable \<longrightarrow>
      (\<exists>m. CheckEnvironment AFILE w = Inl (OtherException m) \<and>
           Main tool a y i w = ([Print (''Unknown error - REASON: '' @ m)], w))) \<and>
   (\<forall>c e. files w AFILE = Contents c \<and> CheckEnvironment AFILE w = Inl e \<longrightarrow>
      (\<exists>m. e = ValueError m \<and> Main tool a y i w = ([Print m], w)))"
proof (cases "files w AFILE")
  case NoSuchFile
  then have "CheckEnvironment AFILE w =
     Inl (FileNotFoundError (''[Errno 2] No such file or directory: '' @ quote AFILE))"
    by (simp add: CheckEnvironment_def open_read_def)
  from this Main_unresolved [OF this, of tool a y i] NoSuchFile show ?thesis by simp
next
  case Directory
  then have "CheckEnvironment AFILE w =
     Inl (OtherException (''[Errno 21] Is a directory: '' @ quote AFILE))"
    by (simp add: CheckEnvironment_def open_read_def)
  from this Main_unresolved [OF this, of tool a y i] Directory show ?thesis by simp
next
  case Unreadable
  then have "CheckEnvironment AFILE w =
     Inl (OtherException (''[Errno 13] Permission denied: '' @ quote AFILE))"
    by (simp add: CheckEnvironment_def open_read_def)
  from this Main_unresolved [OF this, of tool a y i] Unreadable show ?thesis by simp
next
  case (Contents c)
  have "\<exists>m. e = ValueError m \<and> Main tool a y i w = ([Print m], w)"
    if e: "CheckEnvironment AFILE w = Inl e" for e
  proof -
    from e have "e = ValueError unknown_environment \<or> e = ValueError invalid_format"
      unfolding CheckEnvironment_Contents [OF Contents]
      by (auto split: list.splits if_splits)
    with Main_unresolved [OF e, of tool a y i] show ?thesis by auto
  qed
  with Contents show ?thesis by simp
qed

theorem marker_failure_kinds_witness:
  "(\<exists>m. CheckEnvironment AFILE no_marker_dir = Inl (FileNotFoundError m)) \<and>
   (\<exists>m. CheckEnvironment AFILE unreadable_marker_dir = Inl (OtherException m)) \<and>
   (\<exists>m. Main terraform_stub ''apply'' True None mismatched_dir = ([Print m], mismatched_dir))"
proof -
  have u: "files unreadable_marker_dir AFILE = Unreadable"
    by (simp add: unreadable_marker_dir_def AFILE_def)
  have n: "files no_marker_dir AFILE = NoSuchFile"
    by (simp add: no_marker_dir_def AFILE_def)
  have c: "files mismatched_dir AFILE =
     Contents (''#environment|production'' @ [CHR 0x0A] @ ''# variables'')"
    by (simp add: mismatched_dir_def production_dir_def AFILE_def)
  from n marker_failure_kinds [of no_marker_dir terraform_stub "''apply''" True None]
  have 1: "\<exists>m. CheckEnvironment AFILE no_marker_dir = Inl (FileNotFoundError m)" by blast
  from u marker_failure_kinds [of unreadable_marker_dir terraform_stub "''apply''" True None]
  have 2: "\<exists>m. CheckEnvironment AFILE unreadable_marker_dir = Inl (OtherException m)" by blast
  from c mismatched_dir_unresolved
    marker_failure_kinds [of mismatched_dir terraform_stub "''apply''" True None]
  have 3: "\<exists>m. Main terraform_stub ''apply'' True None mismatched_dir = ([Print m], mismatched_dir)"
    by blast
  from 1 2 3 show ?thesis by simp
qed

lemma RunTerraformApply_eq:
  "RunTerraformApply tool (tr, w) =
     (if is_file ''.tfplan'' w then
        (case tool [TERRAFORMPATH @ ''terraform'', ''apply .tfplan''] w of
           Inl e \<Rightarrow> (Inl e, (tr @ [Call [TERRAFORMPATH @ ''terraform'', ''apply .tfplan'']], w))
         | Inr (rc, w') \<Rightarrow>
             unlink ''.tfplan'' (tr @ [Call [TERRAFORMPATH @ ''terraform'', ''apply .tfplan'']], w'))
      else (Inl (ValueError no_tfplan), (tr, w)))"
  by (simp add: RunTerraformApply_def seq_def call_def Let_def split: sum.splits prod.splits)

lemma lstrip_keyword:
  "lstrip ''plan'' = ''plan''" "lstrip ''apply'' = ''apply''" "lstrip ''destroy'' = ''destroy''"
  "lstrip ''get-update'' = ''get-update''" "lstrip ''validate'' = ''validate''"
  "lstrip ''removeplanfile'' = ''removeplanfile''"
  by (simp_all add: lstrip_def isspace_def)

text \<open>
  C4. Without a regular file \<^verbatim>\<open>.tfplan\<close>, \<open>RunTerraformApply\<close> raises the
  \<^verbatim>\<open>ValueError\<close> about the missing plan file and leaves trace and world as they
  were: no call of the binary, no unlink. Reached through \<open>Main\<close> in a resolved
  environment, with the bypass flag or after the answer \<^verbatim>\<open>yes\<close>, the invocation prints
  that text and nothing is called or changed.
\<close>

theorem apply_without_plan:
  "\<not> is_file ''.tfplan'' w \<longrightarrow>
     RunTerraformApply tool (tr, w) = (Inl (ValueError no_tfplan), (tr, w)) \<and>
     (\<forall>E. CheckEnvironment AFILE w = Inr E \<longrightarrow>
        Main tool ''apply'' True i w = ([Print no_tfplan], w) \<and>
        (\<forall>answer. lstrip answer = ''yes'' \<longrightarrow>
           Main tool ''apply'' False (Some answer) w =
             ([Input (PromptQuestion ''APPLY'' E), Print no_tfplan], w)))"
  by (simp add: RunTerraformApply_eq Main_def lstrip_keyword keywords_upper seq_def input_def
        print_def)

theorem apply_without_plan_witness:
  "\<not> is_file ''.tfplan'' production_dir \<and>
   RunTerraformApply terraform_stub ([], production_dir) =
     (Inl (ValueError no_tfplan), ([], production_dir)) \<and>
   Main terraform_stub ''apply'' True None production_dir = ([Print no_tfplan], production_dir) \<and>
   Main terraform_stub ''apply'' False (Some ''yes'') production_dir =
     ([Input (PromptQuestion ''APPLY'' PRODUCTION), Print no_tfplan], production_dir)"
proof -
  have absent: "\<not> is_file ''.tfplan'' production_dir"
    by (simp add: is_file_def production_dir_def)
  have yes: "lstrip ''yes'' = ''yes''"
    by (simp add: lstrip_def isspace_def)
  from absent yes production_dir_resolved
    apply_without_plan [of production_dir terraform_stub "[]" None]
  show ?thesis by simp
qed

lemma unlink_is_file:
  "is_file p w \<Longrightarrow>
   unlink p (tr, w) = (Inr (), (tr @ [Unlink p], w\<lparr>files := (files w)(p := NoSuchFile)\<rparr>))"
  by (simp add: unlink_def is_file_def split: node.splits)

lemma is_file_unlinked: "\<not> is_file p (w\<lparr>files := (files w)(p := NoSuchFile)\<rparr>)"
  by (simp add: is_file_def)

lemma RunTerraformPlan_eq:
  "RunTerraformPlan tool (tr, w) =
     (case tool [TERRAFORMPATH @ ''terraform'', ''get''] w of
        Inl e \<Rightarrow> (Inl e, (tr @ [Call [TERRAFORMPATH @ ''terraform'', ''get'']], w))
      | Inr (rc, w1) \<Rightarrow>
          (let tr2 = tr @ [Call [TERRAFORMPATH @ ''terraform'', ''get'']] @
                     (if is_file ''.tfplan'' w1 then [Unlink ''.tfplan''] else []);
               w2 = (if is_file ''.tfplan'' w1
                     then w1\<lparr>files := (files w1)(''.tfplan'' := NoSuchFile)\<rparr> else w1)
           in case tool [TERRAFORMPATH @ ''terraform'', ''plan'', ''-out=.tfplan''] w2 of
                Inl e \<Rightarrow>
                  (Inl e, (tr2 @ [Call [TERRAFORMPATH @ ''terraform'', ''plan'', ''-out=.tfplan'']], w2))
              | Inr (rc', w3) \<Rightarrow>
                  (Inr (), (tr2 @ [Call [TERRAFORMPATH @ ''terraform'', ''plan'', ''-out=.tfplan'']], w3))))"
proof (cases "tool [TERRAFORMPATH @ ''terraform'', ''get''] w")
  case (Inl e)
  then show ?thesis
    by (simp add: RunTerraformPlan_def seq_def call_def)
next
  case (Inr p)
  obtain rc w1 where p: "p = (rc, w1)" by (cases p)
  show ?thesis
  proof (cases "is_file ''.tfplan'' w1")
    case True
    with Inr p show ?thesis
      by (simp add: RunTerraformPlan_def seq_def call_def unlink_is_file Let_def
               split: sum.splits prod.splits)
  next
    case False
    with Inr p show ?thesis
      by (simp add: RunTerraformPlan_def seq_def call_def Let_def
               split: sum.splits prod.splits)
  qed
qed

text \<open>
  C7. Whatever the binary does, the first thing \<open>RunTerraformPlan\<close> does is to call it
  with \<^verbatim>\<open>get\<close>. When that call returns, the whole trace is: the \<^verbatim>\<open>get\<close> call, then the
  unlink of \<^verbatim>\<open>.tfplan\<close> if and only if a plan file is there after \<^verbatim>\<open>get\<close>, then the
  call with \<^verbatim>\<open>plan -out=.tfplan\<close>; and that last call starts in a world without a plan
  file, its outcome being the outcome of the whole.
\<close>

theorem plan_command_order:
  "RunTerraformPlan tool ([], w) = (r, (tr, w')) \<longrightarrow>
     tr \<noteq> [] \<and> hd tr = Call [TERRAFORMPATH @ ''terraform'', ''get''] \<and>
     (\<forall>rc w1. tool [TERRAFORMPATH @ ''terraform'', ''get''] w = Inr (rc, w1) \<longrightarrow>
        tr = [Call [TERRAFORMPATH @ ''terraform'', ''get'']] @
             (if is_file ''.tfplan'' w1 then [Unlink ''.tfplan''] else []) @
             [Call [TERRAFORMPATH @ ''terraform'', ''plan'', ''-out=.tfplan'']] \<and>
        (\<exists>w2. \<not> is_file ''.tfplan'' w2 \<and>
              (case tool [TERRAFORMPATH @ ''terraform'', ''plan'', ''-out=.tfplan''] w2 of
                 Inl e \<Rightarrow> r = Inl e \<and> w' = w2
               | Inr (rc', w3) \<Rightarrow> r = Inr () \<and> w' = w3)))"
proof (cases "tool [TERRAFORMPATH @ ''terraform'', ''get''] w")
  case (Inl e)
  then show ?thesis
    by (auto simp: RunTerraformPlan_eq)
next
  case (Inr p)
  obtain rc w1 where p: "p = (rc, w1)" by (cases p)
  let ?w2 = "if is_file ''.tfplan'' w1
             then w1\<lparr>files := (files w1)(''.tfplan'' := NoSuchFile)\<rparr> else w1"
  have absent: "\<not> is_file ''.tfplan'' ?w2"
    by (simp add: is_file_unlinked)
  show ?thesis
  proof (intro impI)
    assume run: "RunTerraformPlan tool ([], w) = (r, (tr, w'))"
    from run Inr p have tr: "tr = [Call [TERRAFORMPATH @ ''terraform'', ''get'']] @
             (if is_file ''.tfplan'' w1 then [Unlink ''.tfplan''] else []) @
             [Call [TERRAFORMPATH @ ''terraform'', ''plan'', ''-out=.tfplan'']]"
      by (auto simp: RunTerraformPlan_eq Let_def split: sum.splits prod.splits if_splits)
    from run Inr p have res:
      "case tool [TERRAFORMPATH @ ''terraform'', ''plan'', ''-out=.tfplan''] ?w2 of
                 Inl e \<Rightarrow> r = Inl e \<and> w' = ?w2
               | Inr (rc', w3) \<Rightarrow> r = Inr () \<and> w' = w3"
      by (auto simp: RunTerraformPlan_eq Let_def split: sum.splits prod.splits if_splits)
    from absent res have "\<exists>w2. \<not> is_file ''.tfplan'' w2 \<and>
              (case tool [TERRAFORMPATH @ ''terraform'', ''plan'', ''-out=.tfplan''] w2 of
                 Inl e \<Rightarrow> r = Inl e \<and> w' = w2
               | Inr (rc', w3) \<Rightarrow> r = Inr () \<and> w' = w3)"
      by blast
    with tr Inr p show "tr \<noteq> [] \<and> hd tr = Call [TERRAFORMPATH @ ''terraform'', ''get''] \<and>
     (\<forall>rc w1. tool [TERRAFORMPATH @ ''terraform'', ''get''] w = Inr (rc, w1) \<longrightarrow>
        tr = [Call [TERRAFORMPATH @ ''terraform'', ''get'']] @
             (if is_file ''.tfplan'' w1 then [Unlink ''.tfplan''] else []) @
             [Call [TERRAFORMPATH @ ''terraform'', ''plan'', ''-out=.tfplan'']] \<and>
        (\<exists>w2. \<not> is_file ''.tfplan'' w2 \<and>
              (case tool [TERRAFORMPATH @ ''terraform'', ''plan'', ''-out=.tfplan''] w2 of
                 Inl e \<Rightarrow> r = Inl e \<and> w' = w2
               | Inr (rc', w3) \<Rightarrow> r = Inr () \<and> w' = w3)))"
      by simp
  qed
qed

lemma plan_in_planned_dir:
  "RunTerraformPlan terraform_stub ([], planned_dir) =
     (Inr (), ([Call [TERRAFORMPATH @ ''terraform'', ''get''], Unlink ''.tfplan'',
                Call [TERRAFORMPATH @ ''terraform'', ''plan'', ''-out=.tfplan'']], planned_dir))"
  by (simp add: RunTerraformPlan_eq terraform_stub_def is_file_def planned_dir_def Let_def)

theorem plan_command_order_witness:
  "RunTerraformPlan terraform_stub ([], planned_dir) =
     (Inr (), ([Call [TERRAFORMPATH @ ''terraform'', ''get''], Unlink ''.tfplan'',
                Call [TERRAFORMPATH @ ''terraform'', ''plan'', ''-out=.tfplan'']], planned_dir)) \<and>
   hd [Call [TERRAFORMPATH @ ''terraform'', ''get''], Unlink ''.tfplan'',
       Call [TERRAFORMPATH @ ''terraform'', ''plan'', ''-out=.tfplan'']] =
     Call [TERRAFORMPATH @ ''terraform'', ''get''] \<and>
   is_file ''.tfplan'' planned_dir"
proof -
  have stale: "is_file ''.tfplan'' planned_dir"
    by (simp add: is_file_def planned_dir_def)
  from plan_in_planned_dir
    plan_command_order [of terraform_stub planned_dir "Inr ()"
      "[Call [TERRAFORMPATH @ ''terraform'', ''get''], Unlink ''.tfplan'',
        Call [TERRAFORMPATH @ ''terraform'', ''plan'', ''-out=.tfplan'']]" planned_dir]
  have "hd [Call [TERRAFORMPATH @ ''terraform'', ''get''], Unlink ''.tfplan'',
       Call [TERRAFORMPATH @ ''terraform'', ''plan'', ''-out=.tfplan'']] =
     Call [TERRAFORMPATH @ ''terraform'', ''get'']"
    by blast
  with plan_in_planned_dir stale show ?thesis by simp
qed

lemma CheckEnvironment_cong:
  "files v afile = files w afile \<Longrightarrow> getcwd v = getcwd w \<Longrightarrow>
   CheckEnvironment afile v = CheckEnvironment afile w"
  by (simp add: CheckEnvironment_def open_read_def)

lemma CheckEnvironment_tfplan_removed:
  "CheckEnvironment AFILE (w\<lparr>files := (files w)(''.tfplan'' := NoSuchFile)\<rparr>) =
   CheckEnvironment AFILE w"
  by (rule CheckEnvironment_cong) (simp_all add: AFILE_def)

lemma RemoveTFPlanFile_eq:
  "RemoveTFPlanFile (tr, w) =
     (if is_file ''.tfplan'' w
      then (Inr (), (tr @ [Unlink ''.tfplan'',
                           Print ([CHR 0x0A] @ '' Removed previous local terraform plan file!!'')],
                     w\<lparr>files := (files w)(''.tfplan'' := NoSuchFile)\<rparr>))
      else (Inr (), (tr, w)))"
  by (simp add: RemoveTFPlanFile_def seq_def unlink_is_file print_def Let_def)

lemma Main_removeplanfile:
  "CheckEnvironment AFILE w = Inr E \<Longrightarrow>
   Main tool ''removeplanfile'' y i w = snd (RemoveTFPlanFile ([], w))"
  by (simp add: Main_def lstrip_keyword RemoveTFPlanFile_eq)

text \<open>
  C8. Without a plan file \<open>RemoveTFPlanFile\<close> returns normally and changes nothing; it
  returns normally in every case; run a second time on the state the first run left,
  it returns normally and changes nothing. The same holds for whole invocations with
  the action \<^verbatim>\<open>removeplanfile\<close> in a resolved environment: the second one has an empty
  trace, so no error report, and leaves the world as it found it.
\<close>

theorem removeplanfile_idempotent:
  "(\<not> is_file ''.tfplan'' w \<longrightarrow> RemoveTFPlanFile (tr, w) = (Inr (), (tr, w))) \<and>
   fst (RemoveTFPlanFile (tr, w)) = Inr () \<and>
   RemoveTFPlanFile (snd (RemoveTFPlanFile (tr, w))) = (Inr (), snd (RemoveTFPlanFile (tr, w))) \<and>
   (\<forall>E. CheckEnvironment AFILE w = Inr E \<longrightarrow>
      (\<not> is_file ''.tfplan'' w \<longrightarrow> Main tool ''removeplanfile'' y i w = ([], w)) \<and>
      Main tool ''removeplanfile'' y i (snd (Main tool ''removeplanfile'' y i w)) =
        ([], snd (Main tool ''removeplanfile'' y i w)))"
proof -
  have 1: "\<not> is_file ''.tfplan'' w \<longrightarrow> RemoveTFPlanFile (tr, w) = (Inr (), (tr, w))"
    by (simp add: RemoveTFPlanFile_eq)
  have 2: "fst (RemoveTFPlanFile (tr, w)) = Inr ()"
    by (simp add: RemoveTFPlanFile_eq)
  have 3: "RemoveTFPlanFile (snd (RemoveTFPlanFile (tr, w))) =
           (Inr (), snd (RemoveTFPlanFile (tr, w)))"
    by (simp add: RemoveTFPlanFile_eq is_file_unlinked)
  have 4: "(\<not> is_file ''.tfplan'' w \<longrightarrow> Main tool ''removeplanfile'' y i w = ([], w)) \<and>
      Main tool ''removeplanfile'' y i (snd (Main tool ''removeplanfile'' y i w)) =
        ([], snd (Main tool ''removeplanfile'' y i w))"
    if E: "CheckEnvironment AFILE w = Inr E" for E
  proof (cases "is_file ''.tfplan'' w")
    case False
    with E show ?thesis
      by (simp add: Main_removeplanfile RemoveTFPlanFile_eq)
  next
    case True
    let ?w1 = "w\<lparr>files := (files w)(''.tfplan'' := NoSuchFile)\<rparr>"
    from E have E1: "CheckEnvironment AFILE ?w1 = Inr E"
      by (simp only: CheckEnvironment_tfplan_removed)
    from True E have "snd (Main tool ''removeplanfile'' y i w) = ?w1"
      by (simp add: Main_removeplanfile RemoveTFPlanFile_eq)
    moreover have "Main tool ''removeplanfile'' y i ?w1 = ([], ?w1)"
      using E1 by (simp add: Main_removeplanfile RemoveTFPlanFile_eq is_file_unlinked)
    ultimately show ?thesis using True by simp
  qed
  from 1 2 3 4 show ?thesis by blast
qed

lemma planned_dir_resolved: "CheckEnvironment AFILE planned_dir = Inr PRODUCTION"
  by code_simp

theorem removeplanfile_idempotent_witness:
  "\<not> is_file ''.tfplan'' production_dir \<and>
   RemoveTFPlanFile ([], production_dir) = (Inr (), ([], production_dir)) \<and>
   Main terraform_stub ''removeplanfile'' False None production_dir = ([], production_dir) \<and>
   Main terraform_stub ''removeplanfile'' False None
     (snd (Main terraform_stub ''removeplanfile'' False None planned_dir)) =
     ([], snd (Main terraform_stub ''removeplanfile'' False None planned_dir))"
proof -
  have absent: "\<not> is_file ''.tfplan'' production_dir"
    by (simp add: is_file_def production_dir_def)
  from absent production_dir_resolved
    removeplanfile_idempotent [of production_dir "[]" terraform_stub False None]
  have a: "RemoveTFPlanFile ([], production_dir) = (Inr (), ([], production_dir)) \<and>
    Main terraform_stub ''removeplanfile'' False None production_dir = ([], production_dir)"
    by blast
  from planned_dir_resolved
    removeplanfile_idempotent [of planned_dir "[]" terraform_stub False None]
  have b: "Main terraform_stub ''removeplanfile'' False None
     (snd (Main terraform_stub ''removeplanfile'' False None planned_dir)) =
     ([], snd (Main terraform_stub ''removeplanfile'' False None planned_dir))"
    by blast
  from absent a b show ?thesis by simp
qed

text \<open>
  C5. Let \<open>RunTerraformPlan\<close> return normally and leave a plan file, and let the binary,
  called for the apply, run and leave that file alone. Then the last thing the plan run
  did was the \<^verbatim>\<open>plan -out=.tfplan\<close> call, so nothing of it touched the new file; the
  apply run calls the binary once and then unlinks \<^verbatim>\<open>.tfplan\<close>, once; no plan file is
  left; and a second apply run raises the \<^verbatim>\<open>ValueError\<close> about the missing plan file
  without doing anything. The same as whole invocations with the bypass flag, as long as
  the environment resolves.
\<close>

theorem plan_then_apply_consumes_once:
  "RunTerraformPlan tool ([], w) = (Inr (), (tr1, w1)) \<and>
   is_file ''.tfplan'' w1 \<and>
   tool [TERRAFORMPATH @ ''terraform'', ''apply .tfplan''] w1 = Inr (rc, w1') \<and>
   is_file ''.tfplan'' w1' \<longrightarrow>
     last tr1 = Call [TERRAFORMPATH @ ''terraform'', ''plan'', ''-out=.tfplan''] \<and>
     (\<exists>w2. RunTerraformApply tool ([], w1) =
             (Inr (), ([Call [TERRAFORMPATH @ ''terraform'', ''apply .tfplan''], Unlink ''.tfplan''], w2)) \<and>
           \<not> is_file ''.tfplan'' w2 \<and>
           RunTerraformApply tool ([], w2) = (Inl (ValueError no_tfplan), ([], w2)) \<and>
           (\<forall>E. CheckEnvironment AFILE w1 = Inr E \<longrightarrow>
              Main tool ''apply'' True i w1 =
                ([Call [TERRAFORMPATH @ ''terraform'', ''apply .tfplan''], Unlink ''.tfplan''], w2)) \<and>
           (\<forall>E. CheckEnvironment AFILE w2 = Inr E \<longrightarrow>
              Main tool ''apply'' True i w2 = ([Print no_tfplan], w2)))"
proof (intro impI, elim conjE)
  let ?apply = "[TERRAFORMPATH @ ''terraform'', ''apply .tfplan'']"
  let ?w2 = "w1'\<lparr>files := (files w1')(''.tfplan'' := NoSuchFile)\<rparr>"
  assume plan: "RunTerraformPlan tool ([], w) = (Inr (), (tr1, w1))"
    and planned: "is_file ''.tfplan'' w1"
    and ran: "tool ?apply w1 = Inr (rc, w1')"
    and kept: "is_file ''.tfplan'' w1'"
  from plan have last: "last tr1 = Call [TERRAFORMPATH @ ''terraform'', ''plan'', ''-out=.tfplan'']"
    by (auto simp: RunTerraformPlan_eq Let_def split: sum.splits prod.splits if_splits)
  from planned ran kept have first:
    "RunTerraformApply tool ([], w1) = (Inr (), ([Call ?apply, Unlink ''.tfplan''], ?w2))"
    by (simp add: RunTerraformApply_eq unlink_is_file)
  have gone: "\<not> is_file ''.tfplan'' ?w2"
    by (simp add: is_file_unlinked)
  then have second: "RunTerraformApply tool ([], ?w2) = (Inl (ValueError no_tfplan), ([], ?w2))"
    by (simp add: RunTerraformApply_eq)
  have main1: "\<forall>E. CheckEnvironment AFILE w1 = Inr E \<longrightarrow>
      Main tool ''apply'' True i w1 = ([Call ?apply, Unlink ''.tfplan''], ?w2)"
    using first by (simp add: Main_def lstrip_keyword)
  have main2: "\<forall>E. CheckEnvironment AFILE ?w2 = Inr E \<longrightarrow>
      Main tool ''apply'' True i ?w2 = ([Print no_tfplan], ?w2)"
    using second by (simp add: Main_def lstrip_keyword print_def)
  from first gone second main1 main2
  have "\<exists>w2. RunTerraformApply tool ([], w1) = (Inr (), ([Call ?apply, Unlink ''.tfplan''], w2)) \<and>
           \<not> is_file ''.tfplan'' w2 \<and>
           RunTerraformApply tool ([], w2) = (Inl (ValueError no_tfplan), ([], w2)) \<and>
           (\<forall>E. CheckEnvironment AFILE w1 = Inr E \<longrightarrow>
              Main tool ''apply'' True i w1 = ([Call ?apply, Unlink ''.tfplan''], w2)) \<and>
           (\<forall>E. CheckEnvironment AFILE w2 = Inr E \<longrightarrow>
              Main tool ''apply'' True i w2 = ([Print no_tfplan], w2))"
    by blast
  with last show "last tr1 = Call [TERRAFORMPATH @ ''terraform'', ''plan'', ''-out=.tfplan''] \<and>
     (\<exists>w2. RunTerraformApply tool ([], w1) =
             (Inr (), ([Call ?apply, Unlink ''.tfplan''], w2)) \<and>
           \<not> is_file ''.tfplan'' w2 \<and>
           RunTerraformApply tool ([], w2) = (Inl (ValueError no_tfplan), ([], w2)) \<and>
           (\<forall>E. CheckEnvironment AFILE w1 = Inr E \<longrightarrow>
              Main tool ''apply'' True i w1 = ([Call ?apply, Unlink ''.tfplan''], w2)) \<and>
           (\<forall>E. CheckEnvironment AFILE w2 = Inr E \<longrightarrow>
              Main tool ''apply'' True i w2 = ([Print no_tfplan], w2)))"
    by simp
qed

lemma plan_in_production_dir:
  "RunTerraformPlan terraform_stub ([], production_dir) =
     (Inr (), ([Call [TERRAFORMPATH @ ''terraform'', ''get''],
                Call [TERRAFORMPATH @ ''terraform'', ''plan'', ''-out=.tfplan'']], planned_dir))"
  by (simp add: RunTerraformPlan_eq terraform_stub_def is_file_def planned_dir_def
        production_dir_def Let_def)

lemma production_dir_unplanned:
  "planned_dir\<lparr>files := (files planned_dir)(''.tfplan'' := NoSuchFile)\<rparr> = production_dir"
  by (simp add: planned_dir_def production_dir_def fun_eq_iff)

theorem plan_then_apply_consumes_once_witness:
  "RunTerraformPlan terraform_stub ([], production_dir) =
     (Inr (), ([Call [TERRAFORMPATH @ ''terraform'', ''get''],
                Call [TERRAFORMPATH @ ''terraform'', ''plan'', ''-out=.tfplan'']], planned_dir)) \<and>
   is_file ''.tfplan'' planned_dir \<and>
   terraform_stub [TERRAFORMPATH @ ''terraform'', ''apply .tfplan''] planned_dir = Inr (1, planned_dir) \<and>
   Main terraform_stub ''apply'' True None planned_dir =
     ([Call [TERRAFORMPATH @ ''terraform'', ''apply .tfplan''], Unlink ''.tfplan''], production_dir) \<and>
   Main terraform_stub ''apply'' True None production_dir = ([Print no_tfplan], production_dir)"
proof -
  let ?apply = "[TERRAFORMPATH @ ''terraform'', ''apply .tfplan'']"
  have planned: "is_file ''.tfplan'' planned_dir"
    by (simp add: is_file_def planned_dir_def)
  have ran: "terraform_stub ?apply planned_dir = Inr (1, planned_dir)"
    by (simp add: terraform_stub_def)
  from plan_in_production_dir planned ran
    plan_then_apply_consumes_once [of terraform_stub production_dir
      "[Call [TERRAFORMPATH @ ''terraform'', ''get''],
        Call [TERRAFORMPATH @ ''terraform'', ''plan'', ''-out=.tfplan'']]"
      planned_dir 1 planned_dir None]
  obtain w2 where
    first: "RunTerraformApply terraform_stub ([], planned_dir) =
             (Inr (), ([Call ?apply, Unlink ''.tfplan''], w2))"
    and m1: "\<forall>E. CheckEnvironment AFILE planned_dir = Inr E \<longrightarrow>
              Main terraform_stub ''apply'' True None planned_dir =
                ([Call ?apply, Unlink ''.tfplan''], w2)"
    and m2: "\<forall>E. CheckEnvironment AFILE w2 = Inr E \<longrightarrow>
              Main terraform_stub ''apply'' True None w2 = ([Print no_tfplan], w2)"
    by blast
  from first planned ran have w2: "w2 = production_dir"
    by (simp add: RunTerraformApply_eq unlink_is_file production_dir_unplanned)
  from m1 planned_dir_resolved w2
  have a: "Main terraform_stub ''apply'' True None planned_dir =
     ([Call ?apply, Unlink ''.tfplan''], production_dir)" by simp
  from m2 production_dir_resolved w2
  have b: "Main terraform_stub ''apply'' True None production_dir = ([Print no_tfplan], production_dir)"
    by simp
  from plan_in_production_dir planned ran a b show ?thesis by simp
qed





















end
